theory Spec2Isabelle
  imports Complex_Main "HOL-Library.Finite_Map"
begin

section \<open>JavaScript values\<close>

text \<open>
  The front end handles values that come out of \<^verbatim>\<open>JSON.parse\<close> (server responses, the
  editor's text areas) plus \<^verbatim>\<open>undefined\<close> for a property that is not there. Numbers are
  the finite ones JSON can write, kept exact as rationals. An object is a finite map from
  property names to values: its keys are unique, and no modelled function looks at key order.
\<close>

datatype jsval =
    JUndefined
  | JNull
  | JBool bool
  | JNum rat
  | JStr string
  | JArr "jsval list"
  | JObj "(string, jsval) fmap"

datatype js_error = TypeError

type_synonym props = "(string, jsval) fmap"

text \<open>\<^verbatim>\<open>!v\<close> is \<open>\<not> truthy v\<close>: the falsy values are undefined, null, false, 0 and the empty string.\<close>

fun truthy :: "jsval \<Rightarrow> bool" where
  "truthy JUndefined = False"
| "truthy JNull = False"
| "truthy (JBool b) = b"
| "truthy (JNum n) = (n \<noteq> 0)"
| "truthy (JStr s) = (s \<noteq> [])"
| "truthy (JArr xs) = True"
| "truthy (JObj m) = True"

text \<open>\<^verbatim>\<open>Array.isArray(v)\<close>\<close>

fun isArray :: "jsval \<Rightarrow> bool" where
  "isArray (JArr xs) = True"
| "isArray v = False"

text \<open>Reading a property of an object: a missing key reads as undefined.\<close>

definition own :: "props \<Rightarrow> string \<Rightarrow> jsval" where
  "own m k = (case fmlookup m k of None \<Rightarrow> JUndefined | Some v \<Rightarrow> v)"

text \<open>
  A natural number written in decimal, as in the index keys \<^verbatim>\<open>"0"\<close>, \<^verbatim>\<open>"1"\<close>, ... of an array
  and in a template string.
\<close>

fun decimal :: "nat \<Rightarrow> string" where
  "decimal n =
     (if n < 10 then [char_of (48 + n)]
      else decimal (n div 10) @ [char_of (48 + n mod 10)])"

declare decimal.simps [simp del]

text \<open>
  The own enumerable properties of a value, which is what the object spread \<^verbatim>\<open>{...v}\<close>
  copies: all of them for an object, the indexed elements for an array, the indexed
  characters for a string, none for undefined, null, a boolean or a number.
\<close>

fun own_props :: "jsval \<Rightarrow> props" where
  "own_props (JObj m) = m"
| "own_props (JArr xs) = fmap_of_list (zip (map decimal [0..<length xs]) xs)"
| "own_props (JStr s) =
     fmap_of_list (zip (map decimal [0..<length s]) (map (\<lambda>c. JStr [c]) s))"
| "own_props v = fmempty"

text \<open>
  \<^verbatim>\<open>v.k\<close> on a value that is neither null nor undefined. Arrays and strings answer
  \<^verbatim>\<open>length\<close> and their indices. Inherited properties are not modelled: of the keys the
  modelled functions read, none is inherited by a JSON value except \<^verbatim>\<open>values\<close> on an
  array, and no modelled function reads \<^verbatim>\<open>values\<close> from an array receiver.
\<close>

fun getv :: "jsval \<Rightarrow> string \<Rightarrow> jsval" where
  "getv (JObj m) k = own m k"
| "getv (JArr xs) k =
     (if k = ''length'' then JNum (of_nat (length xs)) else own (own_props (JArr xs)) k)"
| "getv (JStr s) k =
     (if k = ''length'' then JNum (of_nat (length s)) else own (own_props (JStr s)) k)"
| "getv v k = JUndefined"

text \<open>\<^verbatim>\<open>v.k\<close> in general: reading a property of null or undefined throws a TypeError.\<close>

definition get :: "jsval \<Rightarrow> string \<Rightarrow> js_error + jsval" where
  "get v k = (if v = JNull \<or> v = JUndefined then Inl TypeError else Inr (getv v k))"

text \<open>Running a step on the value of an earlier one, unless that one threw.\<close>

definition and_then :: "js_error + 'a \<Rightarrow> ('a \<Rightarrow> js_error + 'b) \<Rightarrow> js_error + 'b" where
  "and_then r f = (case r of Inl e \<Rightarrow> Inl e | Inr v \<Rightarrow> f v)"

section \<open>Conversion to strings and the console\<close>

text \<open>
  What the JavaScript engine decides and the repository does not: the number a string,
  array or object converts to in a comparison (none for NaN), the digits a number is
  written with, and the messages of the two TypeErrors met here, the one of a property
  read on null or undefined and the one of a value that cannot be converted to a string.
\<close>

record engine =
  to_number :: "jsval \<Rightarrow> rat option"
  number_to_string :: "rat \<Rightarrow> string"
  type_error_message :: string
  convert_error_message :: string

text \<open>
  Converting a value to a string (in \<^verbatim>\<open>args.join(' ')\<close>, in a template string) can throw.
  An object parsed from JSON is converted by the inherited \<^verbatim>\<open>toString\<close>, unless it has a
  property \<^verbatim>\<open>toString\<close> of its own: that one is never a function, and the conversion
  throws a TypeError. An array is converted by joining its elements, so it converts when
  they all do. Everything else converts.
\<close>

fun stringifiable :: "jsval \<Rightarrow> bool" where
  "stringifiable (JObj m) = (fmlookup m ''toString'' = None)"
| "stringifiable (JArr xs) = list_all stringifiable xs"
| "stringifiable v = True"

text \<open>\<^verbatim>\<open>`${v}`\<close> inside a template string.\<close>

definition interpolate :: "jsval \<Rightarrow> js_error + unit" where
  "interpolate v = (if stringifiable v then Inr () else Inl TypeError)"

text \<open>
  \<^verbatim>\<open>App\<close> imports \<^verbatim>\<open>LoggingService\<close>, so every \<^verbatim>\<open>console.log\<close> and \<^verbatim>\<open>console.error\<close> of a
  component is the service's override, which joins its arguments with
  \<^verbatim>\<open>args.join(' ')\<close>. For the caller the call either returns or throws the TypeError of
  that join; \<open>console_call\<close> is this outcome. What the override does to the service
  itself is in the section on the service, where this outcome is shown to be the
  override's in every state.
\<close>

definition console_call :: "jsval list \<Rightarrow> js_error + unit" where
  "console_call args = (if list_all stringifiable args then Inr () else Inl TypeError)"

text \<open>\<^verbatim>\<open>console.error(...args); return false;\<close>\<close>

definition reject_with :: "jsval list \<Rightarrow> js_error + bool" where
  "reject_with args = (case console_call args of Inl e \<Rightarrow> Inl e | Inr u \<Rightarrow> Inr False)"




section \<open>VisualizationDisplay: repairing Plotly traces\<close>

text \<open>
  The callback of \<^verbatim>\<open>data.map\<close> in \<^verbatim>\<open>sanitizePlotlyData\<close> works on the fresh copy
  \<^verbatim>\<open>sanitizedTrace\<close>; each of its assignments is an update of the copy's properties.
  Its statements, in order:

  \<^verbatim>\<open>if (!sanitizedTrace.type) { sanitizedTrace.type = 'scatter'; }\<close>
\<close>

definition defaultType :: "props \<Rightarrow> props" where
  "defaultType s =
     (if \<not> truthy (own s ''type'') then fmupd ''type'' (JStr ''scatter'') s else s)"

text \<open>
  \<^verbatim>\<open>if (sanitizedTrace.k && !Array.isArray(sanitizedTrace.k)) { sanitizedTrace.k = [sanitizedTrace.k]; }\<close>
  for \<open>k\<close> = x and then for \<open>k\<close> = y, both only when the type is scatter or bar.
\<close>

definition promote :: "string \<Rightarrow> props \<Rightarrow> props" where
  "promote k s =
     (if truthy (own s k) \<and> \<not> isArray (own s k) then fmupd k (JArr [own s k]) s else s)"

definition promoteXY :: "props \<Rightarrow> props" where
  "promoteXY s =
     (if own s ''type'' = JStr ''scatter'' \<or> own s ''type'' = JStr ''bar''
      then promote ''y'' (promote ''x'' s) else s)"

text \<open>
  \<^verbatim>\<open>if (sanitizedTrace.type === 'scatter' && !sanitizedTrace.mode) { sanitizedTrace.mode = 'lines+markers'; }\<close>
\<close>

definition defaultMode :: "props \<Rightarrow> props" where
  "defaultMode s =
     (if own s ''type'' = JStr ''scatter'' \<and> \<not> truthy (own s ''mode'')
      then fmupd ''mode'' (JStr ''lines+markers'') s else s)"

definition sanitizeProps :: "props \<Rightarrow> props" where
  "sanitizeProps s = defaultMode (promoteXY (defaultType s))"

text \<open>\<^verbatim>\<open>trace => { const sanitizedTrace = { ...trace }; ...; return sanitizedTrace; }\<close>\<close>

definition sanitizeTrace :: "jsval \<Rightarrow> jsval" where
  "sanitizeTrace trace = JObj (sanitizeProps (own_props trace))"

text \<open>
  \<^verbatim>\<open>sanitizePlotlyData\<close>: for anything that is not an array,
  \<^verbatim>\<open>console.error("Cannot sanitize non-array data:", data); return null;\<close>
\<close>

definition sanitizePlotlyData :: "jsval \<Rightarrow> js_error + jsval" where
  "sanitizePlotlyData data =
     (if \<not> isArray data
      then (case console_call [JStr ''Cannot sanitize non-array data:'', data] of
              Inl e \<Rightarrow> Inl e
            | Inr u \<Rightarrow> Inr JNull)
      else (case data of
              JArr traces \<Rightarrow> Inr (JArr (map sanitizeTrace traces))
            | _ \<Rightarrow> Inr JNull))"

section \<open>VisualizationDisplay: validating Plotly traces\<close>

text \<open>
  One turn of the loop \<^verbatim>\<open>for (const trace of data)\<close> in \<^verbatim>\<open>isValidPlotlyData\<close>:
  \<open>Inr False\<close> is \<^verbatim>\<open>return false\<close>, \<open>Inr True\<close> goes on to the next trace, and \<open>Inl\<close> is
  a TypeError: the one of \<^verbatim>\<open>trace.type\<close> on a null trace, the one of a \<^verbatim>\<open>console.error\<close>
  that cannot join the trace, or the one of the template string of the default branch.
  Once \<^verbatim>\<open>trace.type\<close> has been read, the later reads of the same trace cannot throw.
  In the branch of bar and scatter the template string \<^verbatim>\<open>`${trace.type} chart ...`\<close>
  is built from the string that \<^verbatim>\<open>trace.type\<close> is there. In the default branch
  \<^verbatim>\<open>console.log(`Using chart type: ${trace.type}`)\<close> first builds its template string,
  which can throw, and then logs that one string, which cannot.
\<close>

definition traceAccepted :: "jsval \<Rightarrow> js_error + bool" where
  "traceAccepted trace =
     (case get trace ''type'' of
        Inl e \<Rightarrow> Inl e
      | Inr ty \<Rightarrow>
          if \<not> truthy ty
            then reject_with [JStr (''Trace is missing '' @ [CHR 0x27] @ ''type'' @ [CHR 0x27] @
                                    '' property:''), trace]
          else if ty = JStr ''bar'' \<or> ty = JStr ''scatter'' then
            (if \<not> isArray (getv trace ''x'') \<or> \<not> isArray (getv trace ''y'')
             then reject_with
                    [JStr ((case ty of JStr name \<Rightarrow> name | _ \<Rightarrow> []) @
                           '' chart missing x or y arrays:''), trace]
             else Inr True)
          else if ty = JStr ''pie'' then
            (if \<not> isArray (getv trace ''values'') \<or> \<not> isArray (getv trace ''labels'')
             then reject_with [JStr ''Pie chart missing values or labels arrays:'', trace]
             else Inr True)
          else (case interpolate ty of Inl e \<Rightarrow> Inl e | Inr u \<Rightarrow> Inr True))"

fun tracesAccepted :: "jsval list \<Rightarrow> js_error + bool" where
  "tracesAccepted [] = Inr True"
| "tracesAccepted (trace # rest) =
     (case traceAccepted trace of
        Inl e \<Rightarrow> Inl e
      | Inr ok \<Rightarrow> if ok then tracesAccepted rest else Inr False)"

definition isValidPlotlyData :: "jsval \<Rightarrow> js_error + bool" where
  "isValidPlotlyData data =
     (if \<not> truthy data then reject_with [JStr ''Plotly data is undefined or null'']
      else if \<not> isArray data then reject_with [JStr ''Plotly data is not an array:'', data]
      else (case data of
        JArr traces \<Rightarrow>
          if length traces = 0 then reject_with [JStr ''Plotly data array is empty'']
          else tracesAccepted traces
      | _ \<Rightarrow> Inr False))"

section \<open>VisualizationDisplay: the layout\<close>

text \<open>
  \<^verbatim>\<open>defaultLayout\<close> of \<^verbatim>\<open>getPlotlyLayout\<close>, given the value of \<^verbatim>\<open>visualization.title\<close>
  (\<^verbatim>\<open>a || b\<close> is \<open>a\<close> when \<open>a\<close> is truthy and \<open>b\<close> otherwise).
\<close>

definition defaultLayout :: "jsval \<Rightarrow> props" where
  "defaultLayout title =
     fmap_of_list
       [(''title'', if truthy title then title else JStr ''Visualization''),
        (''autosize'', JBool True),
        (''margin'', JObj (fmap_of_list
           [(''l'', JNum 50), (''r'', JNum 50), (''b'', JNum 50), (''t'', JNum 50),
            (''pad'', JNum 4)]))]"

text \<open>
  \<^verbatim>\<open>{ ...defaultLayout, ...visualization.plotlyLayout }\<close> is the map of the defaults
  overridden by the own properties of \<^verbatim>\<open>plotlyLayout\<close>.
\<close>

definition getPlotlyLayout :: "jsval \<Rightarrow> js_error + jsval" where
  "getPlotlyLayout visualization =
     (case get visualization ''title'' of
        Inl e \<Rightarrow> Inl e
      | Inr title \<Rightarrow>
          if truthy (getv visualization ''plotlyLayout'')
          then Inr (JObj (defaultLayout title ++\<^sub>f
                          own_props (getv visualization ''plotlyLayout'')))
          else Inr (JObj (defaultLayout title)))"

section \<open>VisualizationDisplay: what the component renders\<close>

text \<open>The component's own state (\<^verbatim>\<open>useState\<close>).\<close>

record display_state =
  plotlyError :: jsval
  isRetrying :: bool
  retryCount :: nat

definition display_init :: display_state where
  "display_init = \<lparr>plotlyError = JNull, isRetrying = False, retryCount = 0\<rparr>"

text \<open>
  The element the component returns: the "No Visualization" message, the error panel with
  its message, the Plotly chart (heading, \<^verbatim>\<open>data\<close>, \<^verbatim>\<open>layout\<close>), the Plotly error with the
  retry button, or the heading and the empty \<^verbatim>\<open>svg\<close> that the D3 effect draws into.
\<close>

datatype view =
    NoVisualization
  | ErrorPanel jsval
  | Plot jsval jsval jsval
  | RetryPanel jsval jsval bool nat
  | Svg jsval

definition VisualizationDisplay :: "display_state \<Rightarrow> jsval \<Rightarrow> js_error + view" where
  "VisualizationDisplay st visualization =
     (if \<not> truthy visualization then Inr NoVisualization
      else if truthy (getv visualization ''error'')
        then Inr (ErrorPanel (getv visualization ''error''))
      else if getv visualization ''type'' = JStr ''plotly'' then
        (case console_call [JStr ''Rendering Plotly visualization:'', visualization] of
           Inl e \<Rightarrow> Inl e
         | Inr u \<Rightarrow>
        (if \<not> truthy (getv visualization ''plotlyData'')
           then Inr (ErrorPanel (JStr ''Missing Plotly data in visualization''))
         else (case isValidPlotlyData (getv visualization ''plotlyData'') of
           Inl e \<Rightarrow> Inl e
         | Inr valid \<Rightarrow>
             if \<not> valid
               then (case console_call [JStr ''Invalid Plotly data structure:'',
                                        getv visualization ''plotlyData''] of
                       Inl e \<Rightarrow> Inl e
                     | Inr u \<Rightarrow> Inr (ErrorPanel (JStr
                 ''Invalid data structure for Plotly visualization. Check console for details.'')))
             else (case getPlotlyLayout visualization of
               Inl e \<Rightarrow> Inl e
             | Inr layout \<Rightarrow>
                 (case sanitizePlotlyData (getv visualization ''plotlyData'') of
                    Inl e \<Rightarrow> Inl e
                  | Inr sanitizedData \<Rightarrow>
                      let heading = (if truthy (getv visualization ''title'')
                                     then getv visualization ''title''
                                     else JStr ''Visualization'')
                      in if \<not> truthy sanitizedData
                           then Inr (ErrorPanel (JStr ''Failed to process visualization data''))
                         else if truthy (plotlyError st)
                           then Inr (RetryPanel heading (plotlyError st) (isRetrying st)
                                       (retryCount st))
                         else Inr (Plot heading sanitizedData layout))))))
      else Inr (Svg (getv visualization ''title'')))"

text \<open>
  \<^verbatim>\<open>renderD3Visualization(type, svg, visualization, ...)\<close>: its \<^verbatim>\<open>switch\<close> hands the
  visualization to one of four renderers (what they draw is not modelled), and its
  default branch is \<^verbatim>\<open>console.error(`Unsupported visualization type: ${type}`)\<close>, whose
  template string can throw.
\<close>

datatype d3_call =
    RenderLineChart jsval
  | RenderBarChart jsval
  | RenderPieChart jsval
  | RenderScatterPlot jsval
  | Unsupported jsval

definition renderD3Visualization :: "jsval \<Rightarrow> jsval \<Rightarrow> js_error + d3_call" where
  "renderD3Visualization type visualization =
     (if type = JStr ''line'' then Inr (RenderLineChart visualization)
      else if type = JStr ''bar'' then Inr (RenderBarChart visualization)
      else if type = JStr ''pie'' then Inr (RenderPieChart visualization)
      else if type = JStr ''scatter'' then Inr (RenderScatterPlot visualization)
      else (case interpolate type of Inl e \<Rightarrow> Inl e | Inr u \<Rightarrow> Inr (Unsupported type)))"

text \<open>
  The D3 effect, run after the component has rendered. \<open>svg\<close> is \<^verbatim>\<open>svgRef.current\<close>:
  whether the \<^verbatim>\<open>svg\<close> element is mounted, which it is only when the component returned
  the view with the \<^verbatim>\<open>svg\<close>. The effect does nothing (\<open>None\<close>) for a missing or a Plotly
  visualization and when there is no \<^verbatim>\<open>svg\<close>; otherwise it calls
  \<^verbatim>\<open>renderD3Visualization\<close> inside \<^verbatim>\<open>try\<close>, and an error thrown there (\<open>Inl\<close>) is caught
  and logged.
\<close>

definition d3Effect :: "bool \<Rightarrow> jsval \<Rightarrow> (js_error + d3_call) option" where
  "d3Effect svg visualization =
     (if \<not> truthy visualization \<or> getv visualization ''type'' = JStr ''plotly'' then None
      else if \<not> svg then None
      else Some (renderD3Visualization (getv visualization ''type'') visualization))"

section \<open>App: the visualization state\<close>

text \<open>The four \<^verbatim>\<open>useState\<close> cells of \<^verbatim>\<open>App\<close>.\<close>

record app_state =
  visualizationData :: jsval
  selectedVisualization :: nat
  loading :: bool
  activeView :: string

definition app_init :: app_state where
  "app_init =
     \<lparr>visualizationData = JNull, selectedVisualization = 0, loading = False,
      activeView = ''main''\<rparr>"

text \<open>A \<^verbatim>\<open>CustomEvent\<close>: its type (the event's name) and its \<^verbatim>\<open>detail\<close>.\<close>

record custom_event =
  event_type :: string
  detail :: jsval

definition handleRetryUpdate :: "custom_event \<Rightarrow> app_state \<Rightarrow> app_state" where
  "handleRetryUpdate event st =
     (if truthy (detail event) \<and> truthy (getv (detail event) ''visualizations'')
      then st\<lparr>visualizationData := detail event, selectedVisualization := 0\<rparr>
      else st)"

text \<open>
  The listeners registered on \<^verbatim>\<open>window\<close>, each under the event name given to
  \<^verbatim>\<open>addEventListener\<close>. \<^verbatim>\<open>App\<close>'s effect registers one.
\<close>

type_synonym listeners = "(string \<times> (custom_event \<Rightarrow> app_state \<Rightarrow> app_state)) list"

definition app_listeners :: listeners where
  "app_listeners = [(''visualization-update'', handleRetryUpdate)]"

text \<open>\<^verbatim>\<open>window.dispatchEvent\<close> calls, in order, the listeners registered under the event's type.\<close>

definition dispatchEvent :: "listeners \<Rightarrow> custom_event \<Rightarrow> app_state \<Rightarrow> app_state" where
  "dispatchEvent window event st =
     fold (\<lambda>(name, listener) s. if name = event_type event then listener event s else s)
       window st"

definition handleDataProcessed :: "jsval \<Rightarrow> app_state \<Rightarrow> app_state" where
  "handleDataProcessed data st = st\<lparr>visualizationData := data, selectedVisualization := 0\<rparr>"

text \<open>
  \<^verbatim>\<open>xs[i]\<close> on an array reads undefined out of range. \<^verbatim>\<open>xs[i] = v\<close> out of range extends
  the array; the holes it leaves read as undefined and are kept as undefined elements.
\<close>

definition element_at :: "jsval list \<Rightarrow> nat \<Rightarrow> jsval" where
  "element_at xs i = (if i < length xs then xs ! i else JUndefined)"

definition set_index :: "jsval list \<Rightarrow> nat \<Rightarrow> jsval \<Rightarrow> jsval list" where
  "set_index xs i v =
     (if i < length xs then xs[i := v]
      else xs @ replicate (i - length xs) JUndefined @ [v])"

text \<open>
  The array spread \<^verbatim>\<open>[...v]\<close> iterates \<open>v\<close>: an array gives its elements, a string its
  characters, and a value that is not iterable throws a TypeError.
\<close>

fun spread_array :: "jsval \<Rightarrow> js_error + jsval list" where
  "spread_array (JArr xs) = Inr xs"
| "spread_array (JStr s) = Inr (map (\<lambda>c. JStr [c]) s)"
| "spread_array v = Inl TypeError"

definition handleEditorUpdate :: "jsval \<Rightarrow> app_state \<Rightarrow> js_error + app_state" where
  "handleEditorUpdate updates st =
     (if \<not> truthy (visualizationData st) \<or>
         \<not> truthy (getv (visualizationData st) ''visualizations'')
      then Inr st
      else (case spread_array (getv (visualizationData st) ''visualizations'') of
        Inl e \<Rightarrow> Inl e
      | Inr copy \<Rightarrow>
          let selected = selectedVisualization st;
              merged = JObj (own_props (element_at copy selected) ++\<^sub>f own_props updates);
              updatedData = JObj (fmupd ''visualizations''
                                    (JArr (set_index copy selected merged))
                                    (own_props (visualizationData st)))
          in Inr (st\<lparr>visualizationData := updatedData\<rparr>)))"

section \<open>VisualizationDisplay: the manual retry\<close>

text \<open>
  How the awaited \<^verbatim>\<open>axios\<close> call settles: rejected with an error (its message), or
  resolved with a response (its \<^verbatim>\<open>data\<close>).
\<close>

datatype http_result = Rejected string | Response jsval

text \<open>\<^verbatim>\<open>v > 0\<close>\<close>

definition gt_zero :: "engine \<Rightarrow> jsval \<Rightarrow> bool" where
  "gt_zero eng v =
     (case v of
        JNum n \<Rightarrow> 0 < n
      | JBool b \<Rightarrow> b
      | JNull \<Rightarrow> False
      | JUndefined \<Rightarrow> False
      | _ \<Rightarrow> (case to_number eng v of None \<Rightarrow> False | Some n \<Rightarrow> 0 < n))"

text \<open>
  \<^verbatim>\<open>handleRetryVisualization\<close>, on the component's state and, through \<^verbatim>\<open>window\<close>, on the
  application's. The \<^verbatim>\<open>catch\<close> block also catches the TypeError of
  \<^verbatim>\<open>console.log('Manual retry response:', response.data)\<close> when the data cannot be
  joined, and the one of \<^verbatim>\<open>response.data.visualizations\<close> when the response has no
  data. The other console calls of the function log strings and errors only.
\<close>

definition handleRetryVisualization ::
  "engine \<Rightarrow> listeners \<Rightarrow> jsval \<Rightarrow> http_result \<Rightarrow> display_state \<times> app_state \<Rightarrow>
     display_state \<times> app_state" where
  "handleRetryVisualization eng window visualization result state =
     (case state of (ds, app) \<Rightarrow>
      if \<not> truthy visualization \<or> \<not> truthy (getv visualization ''sourceText'')
      then (ds, app)
      else
        let ds1 = ds\<lparr>isRetrying := True, retryCount := retryCount ds + 1\<rparr> in
        (case result of
           Rejected message \<Rightarrow>
             (ds1\<lparr>plotlyError := JStr (''Retry error: '' @ message), isRetrying := False\<rparr>, app)
         | Response data \<Rightarrow>
             (case console_call [JStr ''Manual retry response:'', data] of
                Inl e \<Rightarrow>
                  (ds1\<lparr>plotlyError := JStr (''Retry error: '' @ convert_error_message eng),
                       isRetrying := False\<rparr>, app)
              | Inr u \<Rightarrow>
             (case get data ''visualizations'' of
                Inl e \<Rightarrow>
                  (ds1\<lparr>plotlyError := JStr (''Retry error: '' @ type_error_message eng),
                       isRetrying := False\<rparr>, app)
              | Inr visualizations \<Rightarrow>
                  if truthy visualizations \<and> gt_zero eng (getv visualizations ''length'')
                  then (ds1\<lparr>plotlyError := JNull, isRetrying := False\<rparr>,
                        dispatchEvent window
                          \<lparr>event_type = ''visualization-updated'', detail = data\<rparr> app)
                  else (ds1\<lparr>plotlyError :=
                               JStr ''Retry failed to generate valid visualizations'',
                             isRetrying := False\<rparr>, app)))))"

section \<open>ModelSelector\<close>

record selector_state =
  models :: jsval
  models_loading :: bool
  models_error :: jsval

definition selector_init :: selector_state where
  "selector_init = \<lparr>models = JArr [], models_loading = True, models_error = JNull\<rparr>"

text \<open>\<^verbatim>\<open>v[0]\<close> for the values \<^verbatim>\<open>models\<close> can hold.\<close>

definition first_element :: "jsval \<Rightarrow> jsval" where
  "first_element v = (case v of JArr xs \<Rightarrow> element_at xs 0 | _ \<Rightarrow> getv v ''0'')"

text \<open>
  \<^verbatim>\<open>fetchModels\<close>, given how the request settles. The second component of the state
  collects the names passed to the parent's \<^verbatim>\<open>onModelSelect\<close>. A TypeError of
  \<^verbatim>\<open>response.data.models[0].name\<close> lands in the \<^verbatim>\<open>catch\<close> block, after \<^verbatim>\<open>setModels\<close>.
\<close>

definition fetchModels ::
  "engine \<Rightarrow> jsval \<Rightarrow> http_result \<Rightarrow> selector_state \<times> jsval list \<Rightarrow>
     selector_state \<times> jsval list" where
  "fetchModels eng selectedModel result state =
     (case state of (st, selections) \<Rightarrow>
      let st1 = st\<lparr>models_loading := True\<rparr> in
      (case result of
         Rejected message \<Rightarrow>
           (st1\<lparr>models_error := JStr ''Failed to fetch models'', models_loading := False\<rparr>,
            selections)
       | Response data \<Rightarrow>
           if truthy data \<and> truthy (getv data ''models'') then
             let st2 = st1\<lparr>models := getv data ''models''\<rparr> in
             if \<not> truthy selectedModel \<and>
                gt_zero eng (getv (getv data ''models'') ''length'')
             then (case get (first_element (getv data ''models'')) ''name'' of
                     Inl e \<Rightarrow>
                       (st2\<lparr>models_error := JStr ''Failed to fetch models'',
                            models_loading := False\<rparr>, selections)
                   | Inr name \<Rightarrow> (st2\<lparr>models_loading := False\<rparr>, selections @ [name]))
             else (st2\<lparr>models_loading := False\<rparr>, selections)
           else (st1\<lparr>models_error := JStr ''No models found'', models_loading := False\<rparr>,
                 selections)))"

text \<open>
  What the component renders: the progress bar, the red error card with the error text,
  or the selector: the selected value, one option per model (its \<^verbatim>\<open>name\<close>; the label's
  formatted size is not modelled) and the line under it.
\<close>

datatype model_info = ModelsAvailable jsval | NoModelsNotice

datatype selector_view =
    LoadingBar
  | ErrorCard jsval
  | Selector jsval "jsval list" model_info

text \<open>\<^verbatim>\<open>models.map((model) => ... model.name ...)\<close>: only an array has \<^verbatim>\<open>map\<close>.\<close>

fun option_names :: "jsval list \<Rightarrow> js_error + jsval list" where
  "option_names [] = Inr []"
| "option_names (model # rest) =
     (case get model ''name'' of
        Inl e \<Rightarrow> Inl e
      | Inr name \<Rightarrow>
          (case option_names rest of Inl e \<Rightarrow> Inl e | Inr names \<Rightarrow> Inr (name # names)))"

definition ModelSelector :: "engine \<Rightarrow> jsval \<Rightarrow> selector_state \<Rightarrow> js_error + selector_view" where
  "ModelSelector eng selectedModel st =
     (if models_loading st then Inr LoadingBar
      else if truthy (models_error st) then Inr (ErrorCard (models_error st))
      else (case models st of
        JArr ms \<Rightarrow>
          (case option_names ms of
             Inl e \<Rightarrow> Inl e
           | Inr names \<Rightarrow>
               Inr (Selector (if truthy selectedModel then selectedModel else JStr [])
                      names
                      (if gt_zero eng (getv (models st) ''length'')
                       then ModelsAvailable (getv (models st) ''length'')
                       else NoModelsNotice)))
      | _ \<Rightarrow> Inl TypeError))"

section \<open>LoggingService\<close>

record log_entry =
  level :: string
  message :: string
  retries :: nat







text \<open>
  How the request settles. \<^verbatim>\<open>sendLogToServer\<close> reports a failure on the original
  \<^verbatim>\<open>console.error\<close> and throws the error again (\<open>Inl\<close>, with the error's message).
\<close>

datatype delivery = Delivered | Failed string












section \<open>The repair step on a heap\<close>











section \<open>Notions used in the proofs\<close>

text \<open>What every repaired trace satisfies; a trace that satisfies it is left alone.\<close>

definition arrayish :: "props \<Rightarrow> string \<Rightarrow> bool" where
  "arrayish m k = (\<not> truthy (own m k) \<or> isArray (own m k))"

definition repaired :: "props \<Rightarrow> bool" where
  "repaired m =
     (truthy (own m ''type'') \<and>
      (if own m ''type'' = JStr ''scatter'' \<or> own m ''type'' = JStr ''bar''
       then arrayish m ''x'' \<and> arrayish m ''y'' else True) \<and>
      (if own m ''type'' = JStr ''scatter'' then truthy (own m ''mode'') else True))"



section \<open>Properties of the repair step\<close>

lemma own_fmupd:
  "own (fmupd k v m) k' = (if k = k' then v else own m k')"
  by (simp add: own_def)

lemma own_promote:
  "own (promote k s) k' = (if k' = k then own (promote k s) k else own s k')"
  by (simp add: promote_def own_fmupd)

lemma promote_arrayish: "\<not> truthy (own (promote k s) k) \<or> isArray (own (promote k s) k)"
  by (simp add: promote_def own_fmupd)

lemma own_promoteXY:
  "k \<noteq> ''x'' \<Longrightarrow> k \<noteq> ''y'' \<Longrightarrow> own (promoteXY s) k = own s k"
  by (simp add: promoteXY_def own_promote)

lemma own_defaultMode:
  "k \<noteq> ''mode'' \<Longrightarrow> own (defaultMode s) k = own s k"
  by (simp add: defaultMode_def own_fmupd)

lemma type_defaultType: "truthy (own (defaultType s) ''type'')"
  by (simp add: defaultType_def own_fmupd)

lemma type_sanitizeProps: "own (sanitizeProps s) ''type'' = own (defaultType s) ''type''"
  by (simp add: sanitizeProps_def own_defaultMode own_promoteXY)

lemma arrayish_promoteXY:
  assumes "own s ''type'' = JStr ''scatter'' \<or> own s ''type'' = JStr ''bar''"
  shows "arrayish (promoteXY s) ''x''" and "arrayish (promoteXY s) ''y''"
proof -
  have xy: "promoteXY s = promote ''y'' (promote ''x'' s)"
    using assms by (simp add: promoteXY_def)
  have "own (promote ''y'' (promote ''x'' s)) ''x'' = own (promote ''x'' s) ''x''"
    by (subst own_promote) simp
  then show "arrayish (promoteXY s) ''x''"
    using promote_arrayish [of "''x''" s] by (simp add: xy arrayish_def)
  show "arrayish (promoteXY s) ''y''"
    using promote_arrayish [of "''y''" "promote ''x'' s"] by (simp add: xy arrayish_def)
qed

lemma arrayish_defaultMode: "arrayish (defaultMode s) k = arrayish s k" if "k \<noteq> ''mode''"
  using that by (simp add: arrayish_def own_defaultMode)

lemma mode_defaultMode:
  "own s ''type'' = JStr ''scatter'' \<Longrightarrow> truthy (own (defaultMode s) ''mode'')"
  by (simp add: defaultMode_def own_fmupd)

lemma sanitizeProps_repaired: "repaired (sanitizeProps m)"
proof -
  let ?d = "defaultType m" and ?p = "promoteXY (defaultType m)"
  have ty: "own (sanitizeProps m) ''type'' = own ?d ''type''"
    by (rule type_sanitizeProps)
  have tp: "own ?p ''type'' = own ?d ''type''"
    by (simp add: own_promoteXY)
  have 1: "truthy (own (sanitizeProps m) ''type'')"
    by (simp add: ty type_defaultType)
  have 2: "arrayish (sanitizeProps m) ''x'' \<and> arrayish (sanitizeProps m) ''y''"
    if "own ?d ''type'' = JStr ''scatter'' \<or> own ?d ''type'' = JStr ''bar''"
    using arrayish_promoteXY [OF that]
    by (simp add: sanitizeProps_def arrayish_defaultMode)
  have 3: "truthy (own (sanitizeProps m) ''mode'')" if "own ?d ''type'' = JStr ''scatter''"
    using mode_defaultMode [of ?p] that by (simp add: sanitizeProps_def tp)
  show ?thesis
    unfolding repaired_def ty using 1 2 3 by (simp add: ty)
qed

lemma promote_fixed: "arrayish m k \<Longrightarrow> promote k m = m"
  by (auto simp add: promote_def arrayish_def)

lemma sanitizeProps_fixed:
  assumes "repaired m"
  shows "sanitizeProps m = m"
proof -
  have d: "defaultType m = m"
    using assms by (simp add: repaired_def defaultType_def)
  have p: "promoteXY m = m"
    using assms by (simp add: repaired_def promoteXY_def promote_fixed split: if_splits)
  have "defaultMode m = m"
    using assms by (simp add: repaired_def defaultMode_def split: if_splits)
  with d p show ?thesis
    by (simp add: sanitizeProps_def)
qed

lemma sanitizeProps_idem: "sanitizeProps (sanitizeProps m) = sanitizeProps m"
  by (rule sanitizeProps_fixed) (rule sanitizeProps_repaired)

lemma sanitizeTrace_idem: "sanitizeTrace (sanitizeTrace t) = sanitizeTrace t"
  by (simp add: sanitizeTrace_def sanitizeProps_idem)

lemma console_call_strings: "console_call [JStr a, JNull] = Inr ()"
  by (simp add: console_call_def)

lemma sanitizePlotlyData_array:
  "sanitizePlotlyData (JArr traces) = Inr (JArr (map sanitizeTrace traces))"
  by (simp add: sanitizePlotlyData_def)

lemma sanitizePlotlyData_other:
  "\<not> isArray x \<Longrightarrow>
   sanitizePlotlyData x = (if stringifiable x then Inr JNull else Inl TypeError)"
  by (simp add: sanitizePlotlyData_def console_call_def)

text \<open>
  C6. The repair step is idempotent: feeding the output of \<^verbatim>\<open>sanitizePlotlyData\<close> back
  into it gives the same result, for every argument. An array of traces is always
  repaired, and to a fixed point; for anything else the function logs and gives null,
  and null gives null; where the first call throws there is no output to feed back.
\<close>

theorem sanitizePlotlyData_idempotent:
  "and_then (sanitizePlotlyData x) sanitizePlotlyData = sanitizePlotlyData x \<and>
   (\<exists>out. sanitizePlotlyData (JArr traces) = Inr (JArr out) \<and>
          sanitizePlotlyData (JArr out) = Inr (JArr out))"
proof
  show "and_then (sanitizePlotlyData x) sanitizePlotlyData = sanitizePlotlyData x"
  proof (cases "isArray x")
    case True
    then obtain ts where "x = JArr ts" by (cases x) simp_all
    then show ?thesis
      by (simp add: and_then_def sanitizePlotlyData_array sanitizeTrace_idem)
  next
    case False
    then show ?thesis
      by (simp add: and_then_def sanitizePlotlyData_other)
  qed
  show "\<exists>out. sanitizePlotlyData (JArr traces) = Inr (JArr out) \<and>
          sanitizePlotlyData (JArr out) = Inr (JArr out)"
    by (simp add: sanitizePlotlyData_array sanitizeTrace_idem)
qed

section \<open>Properties of the validator and of the rendering path\<close>

lemma own_fmempty: "own fmempty k = JUndefined"
  by (simp add: own_def)

lemmas own_eval = own_fmupd own_fmempty

lemma own_absent: "fmlookup m k = None \<Longrightarrow> own m k = JUndefined"
  by (simp add: own_def)

lemma reject_with_not_True: "reject_with args \<noteq> Inr True"
  by (simp add: reject_with_def split: sum.splits)

lemma reject_with_eq:
  "reject_with args = (if list_all stringifiable args then Inr False else Inl TypeError)"
  by (simp add: reject_with_def console_call_def)

text \<open>What the validator asks of a trace object.\<close>

lemma traceAccepted_obj:
  "traceAccepted (JObj m) = Inr True \<longleftrightarrow>
     truthy (own m ''type'') \<and>
     (if own m ''type'' = JStr ''bar'' \<or> own m ''type'' = JStr ''scatter''
      then isArray (own m ''x'') \<and> isArray (own m ''y'')
      else if own m ''type'' = JStr ''pie''
      then isArray (own m ''values'') \<and> isArray (own m ''labels'')
      else stringifiable (own m ''type''))"
  by (simp add: traceAccepted_def get_def reject_with_not_True interpolate_def)

lemma traceAccepted_bar_scatter:
  assumes "own m ''type'' = JStr ''bar'' \<or> own m ''type'' = JStr ''scatter''"
    and "stringifiable (JObj m)"
  shows "traceAccepted (JObj m) = Inr (isArray (own m ''x'') \<and> isArray (own m ''y''))"
  using assms by (auto simp add: traceAccepted_def get_def reject_with_eq)

lemma tracesAccepted_True:
  "tracesAccepted ts = Inr True \<longleftrightarrow> list_all (\<lambda>t. traceAccepted t = Inr True) ts"
  by (induction ts) (auto split: sum.splits)

lemma tracesAccepted_objs:
  assumes "list_all (\<lambda>m. \<exists>b. traceAccepted (JObj m) = Inr b) ms"
  shows "tracesAccepted (map JObj ms) =
           Inr (list_all (\<lambda>m. traceAccepted (JObj m) = Inr True) ms)"
  using assms
proof (induction ms)
  case Nil
  show ?case by simp
next
  case (Cons m ms)
  then obtain b where b: "traceAccepted (JObj m) = Inr b"
    by auto
  show ?case
    using Cons by (cases b) (simp_all add: b)
qed

lemma isValid_True:
  "isValidPlotlyData (JArr ts) = Inr True \<longleftrightarrow>
     ts \<noteq> [] \<and> list_all (\<lambda>t. traceAccepted t = Inr True) ts"
  by (simp add: isValidPlotlyData_def reject_with_not_True tracesAccepted_True)

lemma isValid_member:
  "t \<in> set ts \<Longrightarrow> traceAccepted t \<noteq> Inr True \<Longrightarrow> isValidPlotlyData (JArr ts) \<noteq> Inr True"
  by (auto simp add: isValid_True list_all_iff)

text \<open>The chart is rendered only for data the validator has accepted.\<close>

lemma Plot_only_if_valid:
  "VisualizationDisplay st vis = Inr (Plot h d l) \<Longrightarrow>
     isValidPlotlyData (getv vis ''plotlyData'') = Inr True"
  by (simp add: VisualizationDisplay_def Let_def split: if_splits sum.splits)

lemma sanitizeProps_other_type:
  assumes "truthy (own m ''type'')" and "own m ''type'' \<noteq> JStr ''scatter''"
    and "own m ''type'' \<noteq> JStr ''bar''"
  shows "sanitizeProps m = m"
  using assms by (simp add: sanitizeProps_def defaultType_def promoteXY_def defaultMode_def)

lemmas render_eval =
  VisualizationDisplay_def isValidPlotlyData_def traceAccepted_def get_def reject_with_eq
  console_call_def interpolate_def own_eval sanitizePlotlyData_array sanitizeTrace_def

text \<open>
  C2, as the code has it. For every pie trace whose \<^verbatim>\<open>values\<close> is a single number, the
  validator rejects the payload that contains it, whether \<^verbatim>\<open>labels\<close> is an array or is
  absent, so the chart is not rendered; and \<^verbatim>\<open>sanitizePlotlyData\<close> does not promote the
  number to an array: it returns the pie trace as it was.
\<close>

theorem pie_scalar_values_rejected:
  assumes "own m ''type'' = JStr ''pie''" and "own m ''values'' = JNum n"
    and "JObj m \<in> set traces"
  shows "isValidPlotlyData (JArr traces) \<noteq> Inr True \<and>
         (getv visualization ''plotlyData'' = JArr traces \<longrightarrow>
            (\<forall>h d l. VisualizationDisplay st visualization \<noteq> Inr (Plot h d l))) \<and>
         sanitizeTrace (JObj m) = JObj m"
proof -
  have "traceAccepted (JObj m) \<noteq> Inr True"
    using assms(1,2) by (simp add: traceAccepted_obj)
  then have inv: "isValidPlotlyData (JArr traces) \<noteq> Inr True"
    using assms(3) by (rule isValid_member [rotated])
  have "sanitizeProps m = m"
    using assms(1) by (simp add: sanitizeProps_other_type)
  then show ?thesis
    using inv Plot_only_if_valid [of st visualization] by (auto simp add: sanitizeTrace_def)
qed

theorem pie_scalar_values_rejected_witness:
  "own (fmap_of_list [(''type'', JStr ''pie''), (''values'', JNum 5)]) ''type'' = JStr ''pie'' \<and>
   own (fmap_of_list [(''type'', JStr ''pie''), (''values'', JNum 5)]) ''values'' = JNum 5 \<and>
   JObj (fmap_of_list [(''type'', JStr ''pie''), (''values'', JNum 5)])
     \<in> set [JObj (fmap_of_list [(''type'', JStr ''pie''), (''values'', JNum 5)])] \<and>
   getv (JObj (fmap_of_list
           [(''type'', JStr ''plotly''),
            (''plotlyData'',
             JArr [JObj (fmap_of_list [(''type'', JStr ''pie''), (''values'', JNum 5)])])]))
        ''plotlyData''
     = JArr [JObj (fmap_of_list [(''type'', JStr ''pie''), (''values'', JNum 5)])] \<and>
   isValidPlotlyData (JArr [JObj (fmap_of_list [(''type'', JStr ''pie''), (''values'', JNum 5)])])
     \<noteq> Inr True \<and>
   (\<forall>h d l. VisualizationDisplay display_init
        (JObj (fmap_of_list
           [(''type'', JStr ''plotly''),
            (''plotlyData'',
             JArr [JObj (fmap_of_list [(''type'', JStr ''pie''), (''values'', JNum 5)])])]))
      \<noteq> Inr (Plot h d l)) \<and>
   sanitizeTrace (JObj (fmap_of_list [(''type'', JStr ''pie''), (''values'', JNum 5)]))
     = JObj (fmap_of_list [(''type'', JStr ''pie''), (''values'', JNum 5)])"
  using pie_scalar_values_rejected
    [of "fmap_of_list [(''type'', JStr ''pie''), (''values'', JNum 5)]" 5
      "[JObj (fmap_of_list [(''type'', JStr ''pie''), (''values'', JNum 5)])]"
      "JObj (fmap_of_list
           [(''type'', JStr ''plotly''),
            (''plotlyData'',
             JArr [JObj (fmap_of_list [(''type'', JStr ''pie''), (''values'', JNum 5)])])])"
      display_init]
  by (simp add: own_eval)

text \<open>
  The claim C2 fails on the pie trace with \<^verbatim>\<open>values: 5\<close> and \<^verbatim>\<open>labels: ['a']\<close>: the
  component shows the error panel for invalid data, and the repair step returns the
  trace with \<^verbatim>\<open>values\<close> still 5.
\<close>

theorem pie_scalar_values_not_promoted:
  "VisualizationDisplay display_init
     (JObj (fmap_of_list
        [(''type'', JStr ''plotly''),
         (''plotlyData'', JArr [JObj (fmap_of_list
            [(''type'', JStr ''pie''), (''values'', JNum 5), (''labels'', JArr [JStr ''a''])])])]))
   = Inr (ErrorPanel (JStr
        ''Invalid data structure for Plotly visualization. Check console for details.'')) \<and>
   sanitizePlotlyData (JArr [JObj (fmap_of_list
            [(''type'', JStr ''pie''), (''values'', JNum 5), (''labels'', JArr [JStr ''a''])])])
   = Inr (JArr [JObj (fmap_of_list
            [(''type'', JStr ''pie''), (''values'', JNum 5), (''labels'', JArr [JStr ''a''])])])"
  by (simp add: render_eval sanitizeProps_other_type)

text \<open>
  C3, as the code has it. For a payload of bar and scatter traces, the validator accepts
  exactly when the payload is not empty and every trace has an array \<^verbatim>\<open>x\<close> and an array
  \<^verbatim>\<open>y\<close>; the lengths of the two arrays are not compared. A payload it does not accept
  it answers with false, provided the traces can be logged.
\<close>

theorem bar_scatter_valid_iff_arrays:
  assumes "list_all (\<lambda>m. own m ''type'' = JStr ''bar'' \<or> own m ''type'' = JStr ''scatter'') ms"
  shows "(isValidPlotlyData (JArr (map JObj ms)) = Inr True \<longleftrightarrow>
            ms \<noteq> [] \<and> list_all (\<lambda>m. isArray (own m ''x'') \<and> isArray (own m ''y'')) ms) \<and>
         (list_all (\<lambda>m. stringifiable (JObj m)) ms \<longrightarrow>
            isValidPlotlyData (JArr (map JObj ms)) =
              Inr (ms \<noteq> [] \<and> list_all (\<lambda>m. isArray (own m ''x'') \<and> isArray (own m ''y'')) ms))"
proof
  have acc: "list_all (\<lambda>m. traceAccepted (JObj m) = Inr True) ms =
        list_all (\<lambda>m. isArray (own m ''x'') \<and> isArray (own m ''y'')) ms"
    using assms by (induction ms) (auto simp add: traceAccepted_obj)
  have "list_all (\<lambda>t. traceAccepted t = Inr True) (map JObj ms) =
        list_all (\<lambda>m. traceAccepted (JObj m) = Inr True) ms"
    by (simp add: list_all_iff)
  then show "isValidPlotlyData (JArr (map JObj ms)) = Inr True \<longleftrightarrow>
            ms \<noteq> [] \<and> list_all (\<lambda>m. isArray (own m ''x'') \<and> isArray (own m ''y'')) ms"
    by (simp add: isValid_True acc)
  show "list_all (\<lambda>m. stringifiable (JObj m)) ms \<longrightarrow>
            isValidPlotlyData (JArr (map JObj ms)) =
              Inr (ms \<noteq> [] \<and> list_all (\<lambda>m. isArray (own m ''x'') \<and> isArray (own m ''y'')) ms)"
  proof
    assume str: "list_all (\<lambda>m. stringifiable (JObj m)) ms"
    have "list_all (\<lambda>m. \<exists>b. traceAccepted (JObj m) = Inr b) ms"
      using assms str by (auto simp add: list_all_iff traceAccepted_bar_scatter)
    then have "tracesAccepted (map JObj ms) =
        Inr (list_all (\<lambda>m. isArray (own m ''x'') \<and> isArray (own m ''y'')) ms)"
      by (simp add: tracesAccepted_objs acc)
    then show "isValidPlotlyData (JArr (map JObj ms)) =
              Inr (ms \<noteq> [] \<and> list_all (\<lambda>m. isArray (own m ''x'') \<and> isArray (own m ''y'')) ms)"
      by (simp add: isValidPlotlyData_def reject_with_eq)
  qed
qed

theorem bar_scatter_valid_iff_arrays_witness:
  "list_all (\<lambda>m. own m ''type'' = JStr ''bar'' \<or> own m ''type'' = JStr ''scatter'')
     [fmap_of_list [(''type'', JStr ''bar''), (''x'', JArr [JNum 1, JNum 2]), (''y'', JArr [JNum 7])],
      fmap_of_list [(''type'', JStr ''scatter''), (''x'', JNum 3), (''y'', JArr [JNum 7])]] \<and>
   list_all (\<lambda>m. stringifiable (JObj m))
     [fmap_of_list [(''type'', JStr ''bar''), (''x'', JArr [JNum 1, JNum 2]), (''y'', JArr [JNum 7])],
      fmap_of_list [(''type'', JStr ''scatter''), (''x'', JNum 3), (''y'', JArr [JNum 7])]] \<and>
   isValidPlotlyData (JArr (map JObj
     [fmap_of_list [(''type'', JStr ''bar''), (''x'', JArr [JNum 1, JNum 2]), (''y'', JArr [JNum 7])],
      fmap_of_list [(''type'', JStr ''scatter''), (''x'', JNum 3), (''y'', JArr [JNum 7])]]))
   = Inr False"
  using bar_scatter_valid_iff_arrays
    [of "[fmap_of_list [(''type'', JStr ''bar''), (''x'', JArr [JNum 1, JNum 2]), (''y'', JArr [JNum 7])],
      fmap_of_list [(''type'', JStr ''scatter''), (''x'', JNum 3), (''y'', JArr [JNum 7])]]"]
  by (simp add: own_eval)

text \<open>
  The claim C3 fails on the bar trace with \<^verbatim>\<open>x: [1, 2]\<close> and \<^verbatim>\<open>y: [7]\<close>: the arrays differ
  in length and the component renders the chart with that trace.
\<close>

theorem unequal_lengths_accepted:
  "length [JNum 1, JNum 2] \<noteq> length [JNum 7] \<and>
   VisualizationDisplay display_init
     (JObj (fmap_of_list
        [(''type'', JStr ''plotly''),
         (''plotlyData'', JArr [JObj (fmap_of_list
            [(''type'', JStr ''bar''), (''x'', JArr [JNum 1, JNum 2]), (''y'', JArr [JNum 7])])])]))
   = Inr (Plot (JStr ''Visualization'')
        (JArr [JObj (fmap_of_list
            [(''type'', JStr ''bar''), (''x'', JArr [JNum 1, JNum 2]), (''y'', JArr [JNum 7])])])
        (JObj (defaultLayout JUndefined)))"
  by (simp add: render_eval getPlotlyLayout_def display_init_def
      sanitizeProps_fixed repaired_def arrayish_def)

text \<open>
  C4, as the code has it. For a trace object without a \<^verbatim>\<open>type\<close>: \<^verbatim>\<open>sanitizePlotlyData\<close>
  gives its copy the type scatter; but a Plotly payload that contains the trace is not
  accepted by the validator, which runs first, so the chart is not rendered; and on
  the D3 path nothing is defaulted: when the D3 effect has an \<^verbatim>\<open>svg\<close> to draw into, a
  visualization without a type goes to the default branch of the \<^verbatim>\<open>switch\<close>, and
  without an \<^verbatim>\<open>svg\<close> the effect does nothing.
\<close>

theorem missing_type_defaulted_by_sanitizer_only:
  assumes "fmlookup m ''type'' = None"
  shows "getv (sanitizeTrace (JObj m)) ''type'' = JStr ''scatter'' \<and>
         (JObj m \<in> set traces \<and> getv visualization ''plotlyData'' = JArr traces \<longrightarrow>
            (\<forall>h d l. VisualizationDisplay st visualization \<noteq> Inr (Plot h d l))) \<and>
         d3Effect svg (JObj m) = (if svg then Some (Inr (Unsupported JUndefined)) else None)"
proof -
  have u: "own m ''type'' = JUndefined"
    using assms by (rule own_absent)
  have 1: "getv (sanitizeTrace (JObj m)) ''type'' = JStr ''scatter''"
    by (simp add: sanitizeTrace_def type_sanitizeProps defaultType_def u own_fmupd)
  have r: "traceAccepted (JObj m) \<noteq> Inr True"
    by (simp add: traceAccepted_obj u)
  have 2: "\<forall>h d l. VisualizationDisplay st visualization \<noteq> Inr (Plot h d l)"
    if "JObj m \<in> set traces" and "getv visualization ''plotlyData'' = JArr traces"
    using isValid_member [OF that(1) r] Plot_only_if_valid [of st visualization] that(2)
    by auto
  have 3: "d3Effect svg (JObj m) = (if svg then Some (Inr (Unsupported JUndefined)) else None)"
    by (simp add: d3Effect_def renderD3Visualization_def interpolate_def u)
  from 1 2 3 show ?thesis by blast
qed

theorem missing_type_defaulted_by_sanitizer_only_witness:
  "fmlookup (fmap_of_list [(''x'', JArr [JNum 1])]) ''type'' = None \<and>
   getv (sanitizeTrace (JObj (fmap_of_list [(''x'', JArr [JNum 1])]))) ''type''
     = JStr ''scatter'' \<and>
   JObj (fmap_of_list [(''x'', JArr [JNum 1])])
     \<in> set [JObj (fmap_of_list [(''x'', JArr [JNum 1])])] \<and>
   getv (JObj (fmap_of_list
           [(''type'', JStr ''plotly''),
            (''plotlyData'', JArr [JObj (fmap_of_list [(''x'', JArr [JNum 1])])])]))
        ''plotlyData''
     = JArr [JObj (fmap_of_list [(''x'', JArr [JNum 1])])] \<and>
   (\<forall>h d l. VisualizationDisplay display_init
        (JObj (fmap_of_list
           [(''type'', JStr ''plotly''),
            (''plotlyData'', JArr [JObj (fmap_of_list [(''x'', JArr [JNum 1])])])]))
      \<noteq> Inr (Plot h d l)) \<and>
   d3Effect True (JObj (fmap_of_list [(''x'', JArr [JNum 1])]))
     = Some (Inr (Unsupported JUndefined))"
  using missing_type_defaulted_by_sanitizer_only
    [where m = "fmap_of_list [(''x'', JArr [JNum 1])]"
       and traces = "[JObj (fmap_of_list [(''x'', JArr [JNum 1])])]"
       and visualization = "JObj (fmap_of_list
           [(''type'', JStr ''plotly''),
            (''plotlyData'', JArr [JObj (fmap_of_list [(''x'', JArr [JNum 1])])])])"
       and st = display_init and svg = True]
  by (simp add: own_eval)

text \<open>
  The claim C4 fails on the Plotly visualization whose only trace is
  \<^verbatim>\<open>{x: [1], y: [2]}\<close>: the pipeline does not go on with a scatter trace, it shows the
  error panel for invalid data.
\<close>

theorem missing_type_rejected_by_pipeline:
  "VisualizationDisplay display_init
     (JObj (fmap_of_list
        [(''type'', JStr ''plotly''),
         (''plotlyData'', JArr [JObj (fmap_of_list
            [(''x'', JArr [JNum 1]), (''y'', JArr [JNum 2])])])]))
   = Inr (ErrorPanel (JStr
        ''Invalid data structure for Plotly visualization. Check console for details.''))"
  by (simp add: render_eval)

text \<open>
  C5. For every visualization (the component calls \<^verbatim>\<open>getPlotlyLayout\<close> on one that is
  neither null nor undefined), the layout is returned, every key that \<^verbatim>\<open>plotlyLayout\<close>
  supplies has its explicit value in it, and every other key has what the defaults
  (title, autosize, margin) give it.
\<close>

theorem layout_defaults_merged_under:
  assumes "visualization \<noteq> JNull" and "visualization \<noteq> JUndefined"
  shows "\<exists>layout. getPlotlyLayout visualization = Inr (JObj layout) \<and>
           (\<forall>k v. fmlookup (own_props (getv visualization ''plotlyLayout'')) k = Some v \<longrightarrow>
                    fmlookup layout k = Some v) \<and>
           (\<forall>k. fmlookup (own_props (getv visualization ''plotlyLayout'')) k = None \<longrightarrow>
                    fmlookup layout k =
                      fmlookup (defaultLayout (getv visualization ''title'')) k)"
proof (cases "truthy (getv visualization ''plotlyLayout'')")
  case True
  then show ?thesis
    using assms by (auto simp add: getPlotlyLayout_def get_def fmlookup_dom_iff)
next
  case False
  then have "own_props (getv visualization ''plotlyLayout'') = fmempty"
    by (cases "getv visualization ''plotlyLayout''") simp_all
  then show ?thesis
    using assms False by (simp add: getPlotlyLayout_def get_def)
qed

theorem layout_defaults_merged_under_witness:
  "JObj (fmap_of_list [(''title'', JStr ''Sales''),
      (''plotlyLayout'', JObj (fmap_of_list [(''title'', JStr ''Mine''), (''height'', JNum 300)]))])
     \<noteq> JNull \<and>
   JObj (fmap_of_list [(''title'', JStr ''Sales''),
      (''plotlyLayout'', JObj (fmap_of_list [(''title'', JStr ''Mine''), (''height'', JNum 300)]))])
     \<noteq> JUndefined \<and>
   (\<exists>layout. getPlotlyLayout (JObj (fmap_of_list [(''title'', JStr ''Sales''),
      (''plotlyLayout'', JObj (fmap_of_list [(''title'', JStr ''Mine''), (''height'', JNum 300)]))]))
      = Inr (JObj layout) \<and>
      fmlookup layout ''title'' = Some (JStr ''Mine'') \<and>
      fmlookup layout ''height'' = Some (JNum 300) \<and>
      fmlookup layout ''autosize'' = Some (JBool True))"
proof -
  let ?v = "JObj (fmap_of_list [(''title'', JStr ''Sales''),
      (''plotlyLayout'', JObj (fmap_of_list [(''title'', JStr ''Mine''), (''height'', JNum 300)]))])"
  obtain layout where l: "getPlotlyLayout ?v = Inr (JObj layout)"
    and e: "\<And>k v. fmlookup (own_props (getv ?v ''plotlyLayout'')) k = Some v \<Longrightarrow>
                    fmlookup layout k = Some v"
    and d: "\<And>k. fmlookup (own_props (getv ?v ''plotlyLayout'')) k = None \<Longrightarrow>
                    fmlookup layout k = fmlookup (defaultLayout (getv ?v ''title'')) k"
    using layout_defaults_merged_under [of ?v] by auto
  have "fmlookup layout ''title'' = Some (JStr ''Mine'')"
    by (rule e) (simp add: own_eval)
  moreover have "fmlookup layout ''height'' = Some (JNum 300)"
    by (rule e) (simp add: own_eval)
  moreover have "fmlookup layout ''autosize'' = Some (JBool True)"
    by (subst d) (simp_all add: own_eval defaultLayout_def)
  ultimately show ?thesis
    using l by simp
qed

section \<open>Properties of the repair step on the heap\<close>












section \<open>Properties of the application state\<close>

lemma dispatch_other_name:
  "event_type ev \<noteq> ''visualization-update'' \<Longrightarrow> dispatchEvent app_listeners ev st = st"
  by (simp add: dispatchEvent_def app_listeners_def)

lemma retry_leaves_app:
  "snd (handleRetryVisualization eng app_listeners vis res (ds, app)) = app"
  by (simp add: handleRetryVisualization_def Let_def dispatch_other_name
      split: http_result.splits sum.splits)

text \<open>
  C1 fails on the code. \<^verbatim>\<open>handleRetryVisualization\<close> dispatches the event
  \<^verbatim>\<open>visualization-updated\<close>, and \<^verbatim>\<open>App\<close> listens for \<^verbatim>\<open>visualization-update\<close>: whatever the
  retry receives, the application's state stays as it was. Here the second of two
  visualizations is selected, a Plotly chart whose drawing failed, and its retry
  receives one new visualization; the component clears its error, and the application
  still holds the two old visualizations with the second one selected. Had the event carried the name the listener is registered under, the
  listener would have put the new data in place and selected the first visualization.
\<close>

theorem retry_result_not_delivered:
  "snd (handleRetryVisualization eng app_listeners vis res (ds, app)) = app \<and>
   handleRetryVisualization eng app_listeners
     (JObj (fmap_of_list
            [(''title'', JStr ''old two''), (''type'', JStr ''plotly''),
             (''sourceText'', JStr ''a,1''),
             (''plotlyData'', JArr [JObj (fmap_of_list
                [(''type'', JStr ''bar''), (''x'', JArr [JStr ''a'']),
                 (''y'', JArr [JNum 1])])])]))
     (Response (JObj (fmap_of_list
        [(''visualizations'', JArr [JObj (fmap_of_list [(''title'', JStr ''new'')])])])))
     (\<lparr>plotlyError = JStr ''Plotly error: bad data'', isRetrying = False, retryCount = 0\<rparr>,
      \<lparr>visualizationData = JObj (fmap_of_list
         [(''visualizations'', JArr [JObj (fmap_of_list [(''title'', JStr ''old one'')]),
                                     JObj (fmap_of_list
            [(''title'', JStr ''old two''), (''type'', JStr ''plotly''),
             (''sourceText'', JStr ''a,1''),
             (''plotlyData'', JArr [JObj (fmap_of_list
                [(''type'', JStr ''bar''), (''x'', JArr [JStr ''a'']),
                 (''y'', JArr [JNum 1])])])])])]),
       selectedVisualization = 1, loading = False, activeView = ''main''\<rparr>)
   = (\<lparr>plotlyError = JNull, isRetrying = False, retryCount = 1\<rparr>,
      \<lparr>visualizationData = JObj (fmap_of_list
         [(''visualizations'', JArr [JObj (fmap_of_list [(''title'', JStr ''old one'')]),
                                     JObj (fmap_of_list
            [(''title'', JStr ''old two''), (''type'', JStr ''plotly''),
             (''sourceText'', JStr ''a,1''),
             (''plotlyData'', JArr [JObj (fmap_of_list
                [(''type'', JStr ''bar''), (''x'', JArr [JStr ''a'']),
                 (''y'', JArr [JNum 1])])])])])]),
       selectedVisualization = 1, loading = False, activeView = ''main''\<rparr>) \<and>
   dispatchEvent app_listeners
     \<lparr>event_type = ''visualization-update'',
      detail = JObj (fmap_of_list
        [(''visualizations'', JArr [JObj (fmap_of_list [(''title'', JStr ''new'')])])])\<rparr>
     \<lparr>visualizationData = JObj (fmap_of_list
         [(''visualizations'', JArr [JObj (fmap_of_list [(''title'', JStr ''old one'')]),
                                     JObj (fmap_of_list
            [(''title'', JStr ''old two''), (''type'', JStr ''plotly''),
             (''sourceText'', JStr ''a,1''),
             (''plotlyData'', JArr [JObj (fmap_of_list
                [(''type'', JStr ''bar''), (''x'', JArr [JStr ''a'']),
                 (''y'', JArr [JNum 1])])])])])]),
       selectedVisualization = 1, loading = False, activeView = ''main''\<rparr>
   = \<lparr>visualizationData = JObj (fmap_of_list
        [(''visualizations'', JArr [JObj (fmap_of_list [(''title'', JStr ''new'')])])]),
      selectedVisualization = 0, loading = False, activeView = ''main''\<rparr>"
proof (intro conjI)
  show "snd (handleRetryVisualization eng app_listeners vis res (ds, app)) = app"
    by (rule retry_leaves_app)
qed (simp_all add: handleRetryVisualization_def console_call_def get_def gt_zero_def own_eval
      dispatchEvent_def app_listeners_def handleRetryUpdate_def)

theorem retry_result_not_delivered_witness:
  "snd (handleRetryVisualization
          \<lparr>to_number = (\<lambda>v. None), number_to_string = (\<lambda>n. ''0''),
            type_error_message = ''not an object'',
            convert_error_message = ''not a primitive''\<rparr>
          app_listeners
          (JObj (fmap_of_list
            [(''title'', JStr ''old two''), (''type'', JStr ''plotly''),
             (''sourceText'', JStr ''a,1''),
             (''plotlyData'', JArr [JObj (fmap_of_list
                [(''type'', JStr ''bar''), (''x'', JArr [JStr ''a'']),
                 (''y'', JArr [JNum 1])])])]))
          (Response (JObj (fmap_of_list
             [(''visualizations'', JArr [JObj (fmap_of_list [(''title'', JStr ''new'')])])])))
          (\<lparr>plotlyError = JStr ''Plotly error: bad data'', isRetrying = False,
              retryCount = 0\<rparr>,
           \<lparr>visualizationData = JObj (fmap_of_list [(''visualizations'', JArr [JObj (fmap_of_list
            [(''title'', JStr ''old two''), (''type'', JStr ''plotly''),
             (''sourceText'', JStr ''a,1''),
             (''plotlyData'', JArr [JObj (fmap_of_list
                [(''type'', JStr ''bar''), (''x'', JArr [JStr ''a'']),
                 (''y'', JArr [JNum 1])])])])])]),
            selectedVisualization = 0, loading = False, activeView = ''main''\<rparr>))
   = \<lparr>visualizationData = JObj (fmap_of_list [(''visualizations'', JArr [JObj (fmap_of_list
            [(''title'', JStr ''old two''), (''type'', JStr ''plotly''),
             (''sourceText'', JStr ''a,1''),
             (''plotlyData'', JArr [JObj (fmap_of_list
                [(''type'', JStr ''bar''), (''x'', JArr [JStr ''a'']),
                 (''y'', JArr [JNum 1])])])])])]),
      selectedVisualization = 0, loading = False, activeView = ''main''\<rparr>"
  by (rule retry_result_not_delivered [THEN conjunct1])

lemma element_at_set_index_other: "j \<noteq> i \<Longrightarrow> element_at (set_index xs i v) j = element_at xs j"
  by (auto simp add: element_at_def set_index_def nth_append)

lemma element_at_set_index_same: "element_at (set_index xs i v) i = v"
  by (simp add: element_at_def set_index_def nth_append)

text \<open>
  C9. When the application holds visualization data with an array of visualizations, an
  editor update succeeds and changes nothing but that array inside the data (the
  selection and the other fields stay); in the array every index but the selected one
  reads as before, and every property of the selected visualization that the update
  does not name keeps its value.
\<close>

theorem editor_update_frame:
  assumes "visualizationData st = JObj d"
    and "fmlookup d ''visualizations'' = Some (JArr vs)"
  shows "\<exists>vs'. handleEditorUpdate updates st =
             Inr (st\<lparr>visualizationData := JObj (fmupd ''visualizations'' (JArr vs') d)\<rparr>) \<and>
           (\<forall>j. j \<noteq> selectedVisualization st \<longrightarrow> element_at vs' j = element_at vs j) \<and>
           (\<forall>k. fmlookup (own_props updates) k = None \<longrightarrow>
              fmlookup (own_props (element_at vs' (selectedVisualization st))) k =
              fmlookup (own_props (element_at vs (selectedVisualization st))) k)"
proof -
  let ?sel = "selectedVisualization st"
  let ?merged = "JObj (own_props (element_at vs ?sel) ++\<^sub>f own_props updates)"
  have v: "getv (visualizationData st) ''visualizations'' = JArr vs"
    using assms by (simp add: own_def)
  have "handleEditorUpdate updates st =
          Inr (st\<lparr>visualizationData :=
                 JObj (fmupd ''visualizations'' (JArr (set_index vs ?sel ?merged)) d)\<rparr>)"
    by (simp add: handleEditorUpdate_def v Let_def) (simp add: assms(1))
  moreover have "\<forall>j. j \<noteq> ?sel \<longrightarrow> element_at (set_index vs ?sel ?merged) j = element_at vs j"
    by (simp add: element_at_set_index_other)
  moreover have "\<forall>k. fmlookup (own_props updates) k = None \<longrightarrow>
      fmlookup (own_props (element_at (set_index vs ?sel ?merged) ?sel)) k =
      fmlookup (own_props (element_at vs ?sel)) k"
    by (simp add: element_at_set_index_same fmlookup_dom_iff)
  ultimately show ?thesis by blast
qed

theorem editor_update_frame_witness:
  "visualizationData
     \<lparr>visualizationData = JObj (fmap_of_list
         [(''visualizations'', JArr [JObj (fmap_of_list [(''title'', JStr ''one'')]),
                                     JObj (fmap_of_list [(''title'', JStr ''two'')])])]),
       selectedVisualization = 1, loading = False, activeView = ''main''\<rparr>
     = JObj (fmap_of_list
         [(''visualizations'', JArr [JObj (fmap_of_list [(''title'', JStr ''one'')]),
                                     JObj (fmap_of_list [(''title'', JStr ''two'')])])]) \<and>
   fmlookup (fmap_of_list
         [(''visualizations'', JArr [JObj (fmap_of_list [(''title'', JStr ''one'')]),
                                     JObj (fmap_of_list [(''title'', JStr ''two'')])])])
       ''visualizations''
     = Some (JArr [JObj (fmap_of_list [(''title'', JStr ''one'')]),
                   JObj (fmap_of_list [(''title'', JStr ''two'')])]) \<and>
   (\<exists>vs'. handleEditorUpdate (JObj (fmap_of_list [(''plotlyData'', JArr [])]))
       \<lparr>visualizationData = JObj (fmap_of_list
         [(''visualizations'', JArr [JObj (fmap_of_list [(''title'', JStr ''one'')]),
                                     JObj (fmap_of_list [(''title'', JStr ''two'')])])]),
        selectedVisualization = 1, loading = False, activeView = ''main''\<rparr>
      = Inr \<lparr>visualizationData = JObj (fmupd ''visualizations'' (JArr vs') (fmap_of_list
         [(''visualizations'', JArr [JObj (fmap_of_list [(''title'', JStr ''one'')]),
                                     JObj (fmap_of_list [(''title'', JStr ''two'')])])])),
        selectedVisualization = 1, loading = False, activeView = ''main''\<rparr> \<and>
      element_at vs' 0 = JObj (fmap_of_list [(''title'', JStr ''one'')]) \<and>
      fmlookup (own_props (element_at vs' 1)) ''title'' = Some (JStr ''two''))"
proof -
  let ?d = "fmap_of_list
         [(''visualizations'', JArr [JObj (fmap_of_list [(''title'', JStr ''one'')]),
                                     JObj (fmap_of_list [(''title'', JStr ''two'')])])]"
  let ?st = "\<lparr>visualizationData = JObj ?d,
        selectedVisualization = 1, loading = False, activeView = ''main''\<rparr>"
  let ?vs = "[JObj (fmap_of_list [(''title'', JStr ''one'')]),
              JObj (fmap_of_list [(''title'', JStr ''two'')])]"
  let ?u = "JObj (fmap_of_list [(''plotlyData'', JArr [])])"
  have 1: "visualizationData ?st = JObj ?d" by simp
  have 2: "fmlookup ?d ''visualizations'' = Some (JArr ?vs)" by simp
  obtain vs' where
    r: "handleEditorUpdate ?u ?st =
          Inr (?st\<lparr>visualizationData := JObj (fmupd ''visualizations'' (JArr vs') ?d)\<rparr>)"
    and o: "\<And>j. j \<noteq> selectedVisualization ?st \<Longrightarrow> element_at vs' j = element_at ?vs j"
    and k: "\<And>k. fmlookup (own_props ?u) k = None \<Longrightarrow>
              fmlookup (own_props (element_at vs' (selectedVisualization ?st))) k =
              fmlookup (own_props (element_at ?vs (selectedVisualization ?st))) k"
    using editor_update_frame [OF 1 2, of ?u] by blast
  have "element_at vs' 0 = JObj (fmap_of_list [(''title'', JStr ''one'')])"
    using o [of 0] by (simp add: element_at_def)
  moreover have "fmlookup (own_props (element_at vs' 1)) ''title'' = Some (JStr ''two'')"
    using k [of "''title''"] by (simp add: element_at_def)
  ultimately show ?thesis
    using r by auto
qed

section \<open>Properties of the model selector\<close>

text \<open>
  C8. When the models endpoint answers with an empty list of models, \<^verbatim>\<open>fetchModels\<close>
  stores the empty list and ends the loading; it sets no error and selects no model.
  The component, which has no error unless an earlier step set one, then renders the
  selector with no option and the notice that no models were found, not the error card.
\<close>

theorem empty_model_list_degrades:
  assumes "truthy data" and "getv data ''models'' = JArr []"
  shows "fetchModels eng selectedModel (Response data) (st, selections) =
           (st\<lparr>models := JArr [], models_loading := False\<rparr>, selections) \<and>
         (\<not> truthy (models_error st) \<longrightarrow>
            ModelSelector eng selectedModel (st\<lparr>models := JArr [], models_loading := False\<rparr>) =
              Inr (Selector (if truthy selectedModel then selectedModel else JStr []) []
                     NoModelsNotice))"
  using assms by (simp add: fetchModels_def ModelSelector_def Let_def gt_zero_def)

theorem empty_model_list_degrades_witness:
  "truthy (JObj (fmap_of_list [(''models'', JArr [])])) \<and>
   getv (JObj (fmap_of_list [(''models'', JArr [])])) ''models'' = JArr [] \<and>
   fetchModels \<lparr>to_number = (\<lambda>v. None), number_to_string = (\<lambda>n. ''0''),
            type_error_message = ''not an object'',
            convert_error_message = ''not a primitive''\<rparr>
     (JStr []) (Response (JObj (fmap_of_list [(''models'', JArr [])]))) (selector_init, [])
   = (\<lparr>models = JArr [], models_loading = False, models_error = JNull\<rparr>, []) \<and>
   ModelSelector \<lparr>to_number = (\<lambda>v. None), number_to_string = (\<lambda>n. ''0''),
            type_error_message = ''not an object'',
            convert_error_message = ''not a primitive''\<rparr>
     (JStr []) \<lparr>models = JArr [], models_loading = False, models_error = JNull\<rparr>
   = Inr (Selector (JStr []) [] NoModelsNotice)"
  using empty_model_list_degrades
    [of "JObj (fmap_of_list [(''models'', JArr [])])"
      "\<lparr>to_number = (\<lambda>v. None), number_to_string = (\<lambda>n. ''0''),
            type_error_message = ''not an object'',
            convert_error_message = ''not a primitive''\<rparr>"
      "JStr []" selector_init "[]"]
  by (simp add: own_eval selector_init_def)

section \<open>Properties of the logging service\<close>





















end
